theory Spec2Isabelle
  imports Main "HOL-Library.Word"
begin

section \<open>The enumeration macros of enums.hpp\<close>

subsection \<open>Preprocessing tokens and the two item macros\<close>

text \<open>
  The macros of the header expand to token sequences. Three kinds of token occur in the
  enumerator list and in the initialiser of the string array: an identifier, a string
  literal (given by its contents) and the comma.
\<close>

datatype token = Ident string | StrLit string | Comma

text \<open>
  \<^verbatim>\<open>#define __COMMA_SEPARATED__(x) x,\<close> and
  \<^verbatim>\<open>#define __STR_COMMA_SEPARATED__(x) #x,\<close>. The operator \<^verbatim>\<open>#\<close> turns the
  spelling of its argument into a string literal. (A name cannot begin with an underscore
  here, so the leading and trailing underscores of the two macro names are dropped.)
\<close>

definition COMMA_SEPARATED :: "string \<Rightarrow> token list" where
  "COMMA_SEPARATED x = [Ident x, Comma]"

definition STR_COMMA_SEPARATED :: "string \<Rightarrow> token list" where
  "STR_COMMA_SEPARATED x = [StrLit x, Comma]"

text \<open>
  Modelled from the spec: \<^verbatim>\<open>MACRO_TO_ARGS\<close> is defined in \<^verbatim>\<open>macrolib.h\<close>, which the
  header includes and which is not among the sources. The specification describes it as
  the preprocessor's list expansion, which produces the enumeration and the string table
  from one source list: the one-argument macro is applied to every argument, in the order
  of the list, and the expansions are put side by side.
\<close>

definition MACRO_TO_ARGS :: "(string \<Rightarrow> token list) \<Rightarrow> string list \<Rightarrow> token list" where
  "MACRO_TO_ARGS m enums = concat (map m enums)"

subsection \<open>The declarations the macros expand to\<close>

text \<open>
  \<^item> \<open>EnumDecl n ts\<close> is \<^verbatim>\<open>enum n { ts };\<close>
  \<^item> \<open>StaticArrayDecl n\<close> is \<^verbatim>\<open>static const char * n[];\<close>
  \<^item> \<open>ArrayDef n ts\<close> is \<^verbatim>\<open>const char * n[] { ts };\<close>
\<close>

datatype decl =
    EnumDecl string "token list"
  | StaticArrayDecl string
  | ArrayDef string "token list"

text \<open>The token pasting \<^verbatim>\<open>enum_class ## _str\<close>.\<close>

definition paste_str :: "string \<Rightarrow> string" where
  "paste_str enum_class' = enum_class' @ ''_str''"

definition ENUM :: "string \<Rightarrow> string list \<Rightarrow> decl list" where
  "ENUM enum_class' enums = [EnumDecl enum_class' (MACRO_TO_ARGS COMMA_SEPARATED enums)]"

definition ENUMSTR :: "string \<Rightarrow> string list \<Rightarrow> decl list" where
  "ENUMSTR enum_class' enums =
     [EnumDecl enum_class' (MACRO_TO_ARGS COMMA_SEPARATED enums),
      StaticArrayDecl (paste_str enum_class')]"

definition STRINGIFY :: "string \<Rightarrow> string list \<Rightarrow> decl list" where
  "STRINGIFY enum_class' enums =
     [ArrayDef (paste_str enum_class') (MACRO_TO_ARGS STR_COMMA_SEPARATED enums)]"

subsection \<open>What the declarations mean in C++\<close>

text \<open>
  A program can fail in two ways that matter here: it is rejected by the compiler, or it
  runs into undefined behaviour (a read outside an array).
\<close>

datatype failure = Ill_formed | Undefined

text \<open>
  The enumerator list between the braces of an enumeration: identifiers separated by
  commas, with one optional comma after the last.
\<close>

fun enumerator_list :: "token list \<Rightarrow> string list option" where
  "enumerator_list [] = Some []"
| "enumerator_list [Ident x] = Some [x]"
| "enumerator_list (Ident x # Comma # ts) =
     (case enumerator_list ts of None \<Rightarrow> None | Some xs \<Rightarrow> Some (x # xs))"
| "enumerator_list ts = None"

text \<open>The initialiser list of the array, of the same shape, made of string literals.\<close>

fun initializer_list :: "token list \<Rightarrow> string list option" where
  "initializer_list [] = Some []"
| "initializer_list [StrLit x] = Some [x]"
| "initializer_list (StrLit x # Comma # ts) =
     (case initializer_list ts of None \<Rightarrow> None | Some xs \<Rightarrow> Some (x # xs))"
| "initializer_list ts = None"

text \<open>
  An enumerator without an initialiser has the value of the one before it plus one, and
  the first one has the value zero.
\<close>

fun number_from :: "nat \<Rightarrow> string list \<Rightarrow> (string \<times> nat) list" where
  "number_from k [] = []"
| "number_from k (x # xs) = (x, k) # number_from (Suc k) xs"

text \<open>
  The declarations seen so far: every enumeration with its enumerators and their values,
  in the order of declaration, and every defined array of C strings with its elements.
  The bound of an array declared with \<^verbatim>\<open>[]\<close> is the number of its initialisers, and an
  empty initialiser list is not allowed for it. Two enumerators of one enumeration with
  the same name, and a second definition of a name, are rejected. The declaration of the
  static array inside the class introduces the name only; the elements come with the
  definition. Names are kept as they are written: the qualification by a class, which
  the in-class use of the macros adds to the argument of \<^verbatim>\<open>STRINGIFY\<close>, is left out.
\<close>

record translation_unit =
  enums :: "string \<rightharpoonup> (string \<times> nat) list"
  arrays :: "string \<rightharpoonup> string list"

definition empty_unit :: translation_unit where
  "empty_unit = \<lparr>enums = Map.empty, arrays = Map.empty\<rparr>"

fun declare_one :: "decl \<Rightarrow> translation_unit \<Rightarrow> failure + translation_unit" where
  "declare_one (EnumDecl n ts) u =
     (case enumerator_list ts of
        None \<Rightarrow> Inl Ill_formed
      | Some xs \<Rightarrow>
          if distinct xs \<and> enums u n = None
          then Inr (u\<lparr>enums := (enums u)(n \<mapsto> number_from 0 xs)\<rparr>)
          else Inl Ill_formed)"
| "declare_one (StaticArrayDecl n) u = Inr u"
| "declare_one (ArrayDef n ts) u =
     (case initializer_list ts of
        None \<Rightarrow> Inl Ill_formed
      | Some ss \<Rightarrow>
          if ss \<noteq> [] \<and> arrays u n = None
          then Inr (u\<lparr>arrays := (arrays u)(n \<mapsto> ss)\<rparr>)
          else Inl Ill_formed)"

fun declare_all :: "decl list \<Rightarrow> translation_unit \<Rightarrow> failure + translation_unit" where
  "declare_all [] u = Inr u"
| "declare_all (d # ds) u =
     (case declare_one d u of Inl f \<Rightarrow> Inl f | Inr u' \<Rightarrow> declare_all ds u')"

subsection \<open>Lookup\<close>

text \<open>
  The built-in subscript of an array. Inside the array it reads the element; outside,
  the behaviour is undefined: the code has no check.
\<close>

definition subscript :: "'a list \<Rightarrow> int \<Rightarrow> failure + 'a" where
  "subscript a i = (if 0 \<le> i \<and> i < int (length a) then Inr (a ! nat i) else Inl Undefined)"

text \<open>\<^verbatim>\<open>#define ENUMS(enum_class, enum_idx) enum_class ## _str[enum_idx]\<close>\<close>

definition ENUMS :: "translation_unit \<Rightarrow> string \<Rightarrow> int \<Rightarrow> failure + string" where
  "ENUMS u enum_class' enum_idx =
     (case arrays u (paste_str enum_class') of
        None \<Rightarrow> Inl Ill_formed
      | Some a \<Rightarrow> subscript a enum_idx)"

section \<open>The exception class of enums.hpp\<close>

subsection \<open>The class\<close>

text \<open>
  A \<^verbatim>\<open>const char *\<close> of the class is the null pointer or points to a string with static
  storage (an element of a string table, or the name of a function), which is never
  written: it is modelled by the string it points to, \<open>None\<close> being \<^verbatim>\<open>nullptr\<close>.
  An \<^verbatim>\<open>int\<close> has 32 bits and is read in two's complement (\<open>sint\<close>).
\<close>

type_synonym c_str = "string option"
type_synonym c_int = "32 word"

text \<open>
  The three private members. (A name cannot end with an underscore here, so each
  member's name gets a prime.)
\<close>

record stdException =
  msg_' :: c_str
  func_' :: c_str
  ec_' :: c_int

text \<open>
  The object that the default member initialisers give:
  \<^verbatim>\<open>msg_{nullptr}\<close>, \<^verbatim>\<open>func_{nullptr}\<close>, \<^verbatim>\<open>ec_{-1}\<close>.
\<close>

definition stdException_init :: stdException where
  "stdException_init = \<lparr>msg_' = None, func_' = None, ec_' = - 1\<rparr>"

text \<open>The accessors \<^verbatim>\<open>what()\<close>, \<^verbatim>\<open>where()\<close> and \<^verbatim>\<open>code()\<close>.\<close>

definition what :: "stdException \<Rightarrow> c_str" where
  "what e = msg_' e"

definition where' :: "stdException \<Rightarrow> c_str" where
  "where' e = func_' e"

definition code :: "stdException \<Rightarrow> c_int" where
  "code e = ec_' e"

text \<open>
  The class declares no copy constructor, so a copy (as \<^verbatim>\<open>throw\<close> makes one) is the
  implicit one: every member is copied, the pointers as pointers.
\<close>

definition copy :: "stdException \<Rightarrow> stdException" where
  "copy e = \<lparr>msg_' = msg_' e, func_' = func_' e, ec_' = ec_' e\<rparr>"

subsection \<open>Objects and the update operation\<close>

text \<open>
  The update operation returns a reference to the object it was called on, so objects
  have an identity: \<open>Expeption\<close> is the object \<^verbatim>\<open>__Expeption__\<close> that the header declares
  together with the class, at namespace scope; \<open>Other n\<close> are the other objects of the
  class (the copies that a \<^verbatim>\<open>throw\<close> makes, for instance). The store gives the members
  of every object.
\<close>

datatype object = Expeption | Other nat

type_synonym store = "object \<Rightarrow> stdException"

text \<open>At the start of the program every object is as its construction leaves it.\<close>

definition initial_store :: store where
  "initial_store = (\<lambda>obj. stdException_init)"

text \<open>
  \<^verbatim>\<open>stdException & operator()(int r, const char *msg, const char *fnc)
     { ec_ = r; msg_ = msg; func_ = fnc; return *this; }\<close>
  The result is the reference returned and the store after the three assignments.
\<close>

definition operator_call ::
  "object \<Rightarrow> c_int \<Rightarrow> c_str \<Rightarrow> c_str \<Rightarrow> store \<Rightarrow> object \<times> store" where
  "operator_call this r msg fnc s =
     (this, s(this := (s this)\<lparr>ec_' := r, msg_' := msg, func_' := fnc\<rparr>))"

subsection \<open>The helper that EXCEPTIONS generates, and EXP\<close>

text \<open>
  \<^verbatim>\<open>#define EXCEPTIONS(THROW_ENUM) \
    stdException & __exp__(THROW_ENUM reason, const char *where) const \
        { return __Expeption__(reason, THROW_ENUM ## _str[reason], where); }\<close>
  \<open>EXCEPTIONS THROW_ENUM u\<close> is the function \<^verbatim>\<open>__exp__\<close> generated in a translation
  unit \<open>u\<close>. Its parameter type must be a declared enumeration and the array must be
  defined. The value \<open>reason\<close> of the enumeration is the index of the array, unchecked,
  and is converted to \<^verbatim>\<open>int\<close> for the first parameter of the update operation.
\<close>

definition EXCEPTIONS ::
  "string \<Rightarrow> translation_unit \<Rightarrow> nat \<Rightarrow> c_str \<Rightarrow> store \<Rightarrow> failure + object \<times> store" where
  "EXCEPTIONS THROW_ENUM u reason where_p s =
     (case enums u THROW_ENUM of
        None \<Rightarrow> Inl Ill_formed
      | Some es \<Rightarrow>
          (case arrays u (paste_str THROW_ENUM) of
             None \<Rightarrow> Inl Ill_formed
           | Some a \<Rightarrow>
               (case subscript a (int reason) of
                  Inl f \<Rightarrow> Inl f
                | Inr m \<Rightarrow> Inr (operator_call Expeption (of_nat reason) (Some m) where_p s))))"

text \<open>
  \<^verbatim>\<open>#define EXP(TROW_REASON) __exp__(TROW_REASON, __PRETTY_FUNCTION__)\<close>
  The macro is used inside a member function of a class that contains
  \<^verbatim>\<open>EXCEPTIONS(THROW_ENUM)\<close>; \<open>PRETTY_FUNCTION\<close> is the string that the compiler
  provides for the enclosing function, and \<open>TROW_REASON\<close> names an enumerator of
  \<open>THROW_ENUM\<close>.
\<close>

definition EXP ::
  "string \<Rightarrow> translation_unit \<Rightarrow> string \<Rightarrow> string \<Rightarrow> store \<Rightarrow> failure + object \<times> store" where
  "EXP THROW_ENUM u PRETTY_FUNCTION TROW_REASON s =
     (case enums u THROW_ENUM of
        None \<Rightarrow> Inl Ill_formed
      | Some es \<Rightarrow>
          (case map_of es TROW_REASON of
             None \<Rightarrow> Inl Ill_formed
           | Some reason \<Rightarrow> EXCEPTIONS THROW_ENUM u reason (Some PRETTY_FUNCTION) s))"

section \<open>The string tables in the memory of the running program\<close>

text \<open>
  The subscript of \<^verbatim>\<open>ENUMS\<close> is compiled to a read at the address of the array's first
  element plus the index, with no comparison against the bound. What it reads outside
  the array depends on where the arrays lie, which the header does not decide: the
  placement is a parameter here. Memory is a sequence of cells, each of the size of a
  pointer and holding a \<^verbatim>\<open>const char *\<close>, addressed by integers. An image gives the
  address of the first element of every array that has been placed, and the contents of
  the cells.
\<close>

record image =
  base_of :: "string \<rightharpoonup> int"
  cell :: "int \<Rightarrow> c_str"

definition empty_image :: image where
  "empty_image = \<lparr>base_of = Map.empty, cell = (\<lambda>a. None)\<rparr>"

text \<open>The elements of an array are stored in consecutive cells, from the address \<open>b\<close> on.\<close>

fun store_table :: "int \<Rightarrow> string list \<Rightarrow> (int \<Rightarrow> c_str) \<Rightarrow> (int \<Rightarrow> c_str)" where
  "store_table b [] mem = mem"
| "store_table b (x # xs) mem = store_table (b + 1) xs (mem(b := Some x))"

fun stored_at :: "(int \<Rightarrow> c_str) \<Rightarrow> int \<Rightarrow> string list \<Rightarrow> bool" where
  "stored_at mem b [] = True"
| "stored_at mem b (x # xs) = (mem b = Some x \<and> stored_at mem (b + 1) xs)"

definition place :: "string \<Rightarrow> int \<Rightarrow> string list \<Rightarrow> image \<Rightarrow> image" where
  "place n b tbl im =
     \<lparr>base_of = (base_of im)(n \<mapsto> b), cell = store_table b tbl (cell im)\<rparr>"

text \<open>
  The arrays defined in a translation unit are placed at the addresses that a layout
  (array names with their addresses) assigns to them.
\<close>

fun load :: "(string \<times> int) list \<Rightarrow> translation_unit \<Rightarrow> image \<Rightarrow> image" where
  "load [] u im = im"
| "load ((n, b) # layout) u im =
     (case arrays u n of
        None \<Rightarrow> load layout u im
      | Some tbl \<Rightarrow> load layout u (place n b tbl im))"

text \<open>
  \<^verbatim>\<open>enum_class ## _str[enum_idx]\<close> as the running program performs it: the cell at the
  address of the array plus the index, whatever the index is.
\<close>

definition ENUMS_in_memory :: "image \<Rightarrow> string \<Rightarrow> int \<Rightarrow> failure + c_str" where
  "ENUMS_in_memory im enum_class' enum_idx =
     (case base_of im (paste_str enum_class') of
        None \<Rightarrow> Inl Ill_formed
      | Some b \<Rightarrow> Inr (cell im (b + enum_idx)))"

section \<open>The examples of the header's comments\<close>

text \<open>
  \<^verbatim>\<open>#define MY_COLORS Red, Amber, Green\<close> and
  \<^verbatim>\<open>define THROWREASON InvalidInput, IncorrectUsage, WrongType\<close>
\<close>

definition MY_COLORS :: "string list" where
  "MY_COLORS = [''Red'', ''Amber'', ''Green'']"

definition THROWREASON :: "string list" where
  "THROWREASON = [''InvalidInput'', ''IncorrectUsage'', ''WrongType'']"

section \<open>Properties of the enumeration macros\<close>

lemma enumerator_list_expansion:
  "enumerator_list (MACRO_TO_ARGS COMMA_SEPARATED L) = Some L"
  by (induction L) (simp_all add: MACRO_TO_ARGS_def COMMA_SEPARATED_def)

lemma initializer_list_expansion:
  "initializer_list (MACRO_TO_ARGS STR_COMMA_SEPARATED L) = Some L"
  by (induction L) (simp_all add: MACRO_TO_ARGS_def STR_COMMA_SEPARATED_def)

lemma length_number_from: "length (number_from k xs) = length xs"
  by (induction xs arbitrary: k) simp_all

lemma nth_number_from: "i < length xs \<Longrightarrow> number_from k xs ! i = (xs ! i, k + i)"
proof (induction xs arbitrary: k i)
  case Nil
  then show ?case by simp
next
  case (Cons x xs)
  then show ?case by (cases i) simp_all
qed

lemma map_snd_number_from: "map snd (number_from k xs) = [k ..< k + length xs]"
  by (induction xs arbitrary: k) (simp_all add: upt_rec)


lemma declare_ENUM:
  assumes "distinct L" and "enums u c = None"
  shows "declare_all (ENUM c L) u = Inr (u\<lparr>enums := (enums u)(c \<mapsto> number_from 0 L)\<rparr>)"
  using assms by (simp add: ENUM_def enumerator_list_expansion)

lemma declare_ENUMSTR:
  assumes "distinct L" and "enums u c = None"
  shows "declare_all (ENUMSTR c L) u = Inr (u\<lparr>enums := (enums u)(c \<mapsto> number_from 0 L)\<rparr>)"
  using assms by (simp add: ENUMSTR_def enumerator_list_expansion)

lemma declare_STRINGIFY:
  assumes "L \<noteq> []" and "arrays u (paste_str c) = None"
  shows "declare_all (STRINGIFY c L) u = Inr (u\<lparr>arrays := (arrays u)(paste_str c \<mapsto> L)\<rparr>)"
  using assms by (simp add: STRINGIFY_def initializer_list_expansion)

lemma declare_all_append:
  "declare_all (ds @ ds') u =
     (case declare_all ds u of Inl f \<Rightarrow> Inl f | Inr u' \<Rightarrow> declare_all ds' u')"
  by (induction ds arbitrary: u) (simp_all split: sum.splits)

lemma declare_ENUMSTR_STRINGIFY:
  assumes "L \<noteq> []" and "distinct L" and "enums u c = None" and "arrays u (paste_str c) = None"
  shows "declare_all (ENUMSTR c L @ STRINGIFY c L) u =
           Inr (u\<lparr>enums := (enums u)(c \<mapsto> number_from 0 L),
                  arrays := (arrays u)(paste_str c \<mapsto> L)\<rparr>)"
  using assms by (simp add: declare_all_append declare_ENUMSTR declare_STRINGIFY)

subsection \<open>The values of the enumerators\<close>

text \<open>
  Claim C2. Let \<open>L\<close> be a list of \<open>N \<ge> 1\<close> distinct identifiers, and let the name of the
  enumeration be new in the translation unit. Then the declaration that \<^verbatim>\<open>ENUM\<close>
  expands to is accepted, and the enumeration it declares has exactly \<open>N\<close> enumerators:
  the \<open>i\<close>-th one is the \<open>i\<close>-th identifier of \<open>L\<close> and has the value \<open>i\<close>, so the values
  are \<open>0\<close> to \<open>N - 1\<close> in the order of the list. The same holds for \<^verbatim>\<open>ENUMSTR\<close>.
\<close>

theorem ENUM_values_sequential:
  assumes "L \<noteq> []" and "distinct L" and "enums u enum_class' = None"
  shows "(\<exists>u' es. declare_all (ENUM enum_class' L) u = Inr u'
            \<and> enums u' enum_class' = Some es
            \<and> length es = length L
            \<and> map snd es = [0 ..< length L]
            \<and> (\<forall>i<length L. es ! i = (L ! i, i)))
       \<and> (\<exists>u' es. declare_all (ENUMSTR enum_class' L) u = Inr u'
            \<and> enums u' enum_class' = Some es
            \<and> length es = length L
            \<and> map snd es = [0 ..< length L]
            \<and> (\<forall>i<length L. es ! i = (L ! i, i)))"
  using assms
  by (simp add: declare_ENUM declare_ENUMSTR length_number_from nth_number_from
      map_snd_number_from)

theorem ENUM_values_sequential_witness:
  "[''Red'', ''Amber'', ''Green''] \<noteq> []
   \<and> distinct [''Red'', ''Amber'', ''Green'']
   \<and> enums empty_unit ''trafficLightColors'' = None
   \<and> (\<exists>u' es.
          declare_all (ENUM ''trafficLightColors'' [''Red'', ''Amber'', ''Green'']) empty_unit
            = Inr u'
          \<and> enums u' ''trafficLightColors'' = Some es
          \<and> length es = 3
          \<and> es ! 0 = (''Red'', 0) \<and> es ! 1 = (''Amber'', 1) \<and> es ! 2 = (''Green'', 2))"
proof -
  let ?L = "[''Red'', ''Amber'', ''Green'']"
  have h1: "?L \<noteq> []" by simp
  have h2: "distinct ?L" by simp
  have h3: "enums empty_unit ''trafficLightColors'' = None" by (simp add: empty_unit_def)
  from ENUM_values_sequential [OF h1 h2 h3]
  obtain u' es where
    "declare_all (ENUM ''trafficLightColors'' ?L) empty_unit = Inr u'"
    "enums u' ''trafficLightColors'' = Some es"
    "length es = length ?L"
    "\<forall>i<length ?L. es ! i = (?L ! i, i)"
    by blast
  then show ?thesis using h1 h2 h3 by (auto simp: numeral_3_eq_3)
qed

subsection \<open>The string table\<close>

text \<open>
  Claim C1. Let \<open>L\<close> be a list of \<open>N \<ge> 1\<close> distinct identifiers, and let the names of
  the enumeration and of its array be new in the translation unit. Then \<^verbatim>\<open>ENUMSTR\<close>
  followed by \<^verbatim>\<open>STRINGIFY\<close> on the same list is accepted, the string table it defines
  has exactly \<open>N\<close> elements, and its element \<open>i\<close> is the spelling of the \<open>i\<close>-th
  identifier of \<open>L\<close>, for every \<open>i < N\<close>. The table is in step with the enumeration:
  the enumerator at position \<open>i\<close> has the value \<open>i\<close> and its name is element \<open>i\<close> of the
  table.
\<close>

theorem STRINGIFY_table_in_step:
  assumes "L \<noteq> []" and "distinct L"
    and "enums u enum_class' = None" and "arrays u (paste_str enum_class') = None"
  shows "\<exists>u' tbl es.
           declare_all (ENUMSTR enum_class' L @ STRINGIFY enum_class' L) u = Inr u'
           \<and> arrays u' (paste_str enum_class') = Some tbl
           \<and> length tbl = length L
           \<and> (\<forall>i<length L. tbl ! i = L ! i)
           \<and> enums u' enum_class' = Some es
           \<and> length es = length tbl
           \<and> (\<forall>i<length L. es ! i = (tbl ! i, i))"
  using assms
  by (simp add: declare_ENUMSTR_STRINGIFY length_number_from nth_number_from)

theorem STRINGIFY_table_in_step_witness:
  "[''Red'', ''Amber'', ''Green''] \<noteq> []
   \<and> distinct [''Red'', ''Amber'', ''Green'']
   \<and> enums empty_unit ''trafficLightColors'' = None
   \<and> arrays empty_unit (paste_str ''trafficLightColors'') = None
   \<and> (\<exists>u' tbl.
          declare_all
            (ENUMSTR ''trafficLightColors'' [''Red'', ''Amber'', ''Green'']
               @ STRINGIFY ''trafficLightColors'' [''Red'', ''Amber'', ''Green''])
            empty_unit = Inr u'
          \<and> arrays u' ''trafficLightColors_str'' = Some tbl
          \<and> length tbl = 3
          \<and> tbl ! 0 = ''Red'' \<and> tbl ! 1 = ''Amber'' \<and> tbl ! 2 = ''Green'')"
proof -
  let ?L = "[''Red'', ''Amber'', ''Green'']"
  have h1: "?L \<noteq> []" by simp
  have h2: "distinct ?L" by simp
  have h3: "enums empty_unit ''trafficLightColors'' = None" by (simp add: empty_unit_def)
  have h4: "arrays empty_unit (paste_str ''trafficLightColors'') = None"
    by (simp add: empty_unit_def)
  from STRINGIFY_table_in_step [OF h1 h2 h3 h4]
  obtain u' tbl where
    "declare_all (ENUMSTR ''trafficLightColors'' ?L @ STRINGIFY ''trafficLightColors'' ?L)
       empty_unit = Inr u'"
    "arrays u' (paste_str ''trafficLightColors'') = Some tbl"
    "length tbl = length ?L"
    "\<forall>i<length ?L. tbl ! i = ?L ! i"
    by blast
  then show ?thesis using h1 h2 h3 h4 by (auto simp: numeral_3_eq_3 paste_str_def)
qed

subsection \<open>Lookup inside the table\<close>

text \<open>
  Claim C7. Whenever the array paired with an enumeration is defined, the lookup
  \<^verbatim>\<open>ENUMS\<close>, applied to the name of the enumeration and an index \<open>i\<close> inside the array,
  returns exactly element \<open>i\<close> of that array. In the example of the header, the list
  \<^verbatim>\<open>Red, Amber, Green\<close> gives the enumerators \<open>Red = 0\<close>, \<open>Amber = 1\<close>, \<open>Green = 2\<close> and the
  table of the three spellings, and the lookup at index 1 returns \<^verbatim>\<open>"Amber"\<close>.
\<close>

theorem ENUMS_returns_entry:
  "(\<forall>u enum_class' tbl i.
      arrays u (paste_str enum_class') = Some tbl \<and> i < length tbl
      \<longrightarrow> ENUMS u enum_class' (int i) = Inr (tbl ! i))
   \<and> (case declare_all
             (ENUMSTR ''trafficLightColors'' MY_COLORS
                @ STRINGIFY ''trafficLightColors'' MY_COLORS)
             empty_unit of
         Inl f \<Rightarrow> False
       | Inr u \<Rightarrow>
           enums u ''trafficLightColors'' = Some [(''Red'', 0), (''Amber'', 1), (''Green'', 2)]
           \<and> arrays u ''trafficLightColors_str'' = Some [''Red'', ''Amber'', ''Green'']
           \<and> ENUMS u ''trafficLightColors'' 1 = Inr ''Amber'')"
proof (rule conjI)
  show "\<forall>u enum_class' tbl i.
      arrays u (paste_str enum_class') = Some tbl \<and> i < length tbl
      \<longrightarrow> ENUMS u enum_class' (int i) = Inr (tbl ! i)"
    by (simp add: ENUMS_def subscript_def)
next
  have "declare_all
          (ENUMSTR ''trafficLightColors'' MY_COLORS @ STRINGIFY ''trafficLightColors'' MY_COLORS)
          empty_unit
        = Inr (empty_unit
                 \<lparr>enums := (enums empty_unit)(''trafficLightColors'' \<mapsto> number_from 0 MY_COLORS),
                  arrays := (arrays empty_unit)(paste_str ''trafficLightColors'' \<mapsto> MY_COLORS)\<rparr>)"
    by (rule declare_ENUMSTR_STRINGIFY) (simp_all add: empty_unit_def MY_COLORS_def)
  then show "case declare_all
             (ENUMSTR ''trafficLightColors'' MY_COLORS
                @ STRINGIFY ''trafficLightColors'' MY_COLORS)
             empty_unit of
         Inl f \<Rightarrow> False
       | Inr u \<Rightarrow>
           enums u ''trafficLightColors'' = Some [(''Red'', 0), (''Amber'', 1), (''Green'', 2)]
           \<and> arrays u ''trafficLightColors_str'' = Some [''Red'', ''Amber'', ''Green'']
           \<and> ENUMS u ''trafficLightColors'' 1 = Inr ''Amber''"
    by (simp add: ENUMS_def subscript_def paste_str_def MY_COLORS_def)
qed

theorem ENUMS_returns_entry_witness:
  "arrays (empty_unit\<lparr>arrays := [''trafficLightColors_str'' \<mapsto> MY_COLORS]\<rparr>)
     (paste_str ''trafficLightColors'') = Some MY_COLORS
   \<and> (2::nat) < length MY_COLORS
   \<and> ENUMS (empty_unit\<lparr>arrays := [''trafficLightColors_str'' \<mapsto> MY_COLORS]\<rparr>)
        ''trafficLightColors'' 2 = Inr ''Green''"
proof -
  let ?u = "empty_unit\<lparr>arrays := [''trafficLightColors_str'' \<mapsto> MY_COLORS]\<rparr>"
  have h: "arrays ?u (paste_str ''trafficLightColors'') = Some MY_COLORS
           \<and> (2::nat) < length MY_COLORS"
    by (simp add: paste_str_def MY_COLORS_def)
  from ENUMS_returns_entry [THEN conjunct1, rule_format, OF h]
  have "ENUMS ?u ''trafficLightColors'' (int 2) = Inr (MY_COLORS ! 2)" .
  then show ?thesis using h by (simp add: MY_COLORS_def)
qed

text \<open>
  Outside the table C++ gives the read no value: it is undefined behaviour. What a
  running program returns there is decided by what lies next to the array in memory.
\<close>

lemma ENUMS_outside_table:
  assumes "arrays u (paste_str c) = Some tbl" and "i < 0 \<or> int (length tbl) \<le> i"
  shows "ENUMS u c i = Inl Undefined"
  using assms by (auto simp: ENUMS_def subscript_def)

subsection \<open>Lookup outside the table\<close>

lemma stored_at_nth:
  "stored_at mem b tbl \<Longrightarrow> j < length tbl \<Longrightarrow> mem (b + int j) = Some (tbl ! j)"
proof (induction tbl arbitrary: b j)
  case Nil
  then show ?case by simp
next
  case (Cons x xs)
  show ?case
  proof (cases j)
    case 0
    with Cons.prems show ?thesis by simp
  next
    case (Suc k)
    with Cons.prems have "mem ((b + 1) + int k) = Some (xs ! k)"
      by (intro Cons.IH) simp_all
    with Suc show ?thesis by (simp add: algebra_simps)
  qed
qed

text \<open>
  Claim C8, as amended. Let the table of an enumeration have \<open>N\<close> elements and be stored
  from the address \<open>b\<close> on. For an index inside \<open>[0, N - 1]\<close> the lookup returns the
  element at that index, in C++ and in the running program. For an index \<open>i\<close> outside,
  C++ leaves the read undefined, and the running program makes no check: it returns
  whatever the cell at the address \<open>b + i\<close> holds. Nothing keeps that cell from holding
  the string of a valid enumerator of the same table.
\<close>

theorem ENUMS_in_memory_unchecked:
  assumes "arrays u (paste_str enum_class') = Some tbl"
    and "base_of im (paste_str enum_class') = Some b"
    and "stored_at (cell im) b tbl"
  shows "(\<forall>i. 0 \<le> i \<and> i < int (length tbl)
            \<longrightarrow> ENUMS u enum_class' i = Inr (tbl ! nat i)
                \<and> ENUMS_in_memory im enum_class' i = Inr (Some (tbl ! nat i)))
       \<and> (\<forall>i. i < 0 \<or> int (length tbl) \<le> i
            \<longrightarrow> ENUMS u enum_class' i = Inl Undefined
                \<and> ENUMS_in_memory im enum_class' i = Inr (cell im (b + i)))"
proof (intro conjI allI impI)
  fix i :: int
  assume h: "0 \<le> i \<and> i < int (length tbl)"
  then show "ENUMS u enum_class' i = Inr (tbl ! nat i)"
    using assms(1) by (simp add: ENUMS_def subscript_def)
  from h have "nat i < length tbl" by linarith
  with assms(3) have "cell im (b + int (nat i)) = Some (tbl ! nat i)"
    by (rule stored_at_nth)
  with h show "ENUMS_in_memory im enum_class' i = Inr (Some (tbl ! nat i))"
    using assms(2) by (simp add: ENUMS_in_memory_def)
next
  fix i :: int
  assume "i < 0 \<or> int (length tbl) \<le> i"
  with assms(1) show "ENUMS u enum_class' i = Inl Undefined"
    by (rule ENUMS_outside_table)
next
  fix i :: int
  show "ENUMS_in_memory im enum_class' i = Inr (cell im (b + i))"
    using assms(2) by (simp add: ENUMS_in_memory_def)
qed

theorem ENUMS_in_memory_unchecked_witness:
  "arrays (empty_unit\<lparr>arrays := [''trafficLightColors_str'' \<mapsto> MY_COLORS]\<rparr>)
     (paste_str ''trafficLightColors'') = Some MY_COLORS
   \<and> base_of (place ''trafficLightColors_str'' 16 MY_COLORS empty_image)
       (paste_str ''trafficLightColors'') = Some 16
   \<and> stored_at (cell (place ''trafficLightColors_str'' 16 MY_COLORS empty_image)) 16 MY_COLORS
   \<and> ENUMS_in_memory (place ''trafficLightColors_str'' 16 MY_COLORS empty_image)
        ''trafficLightColors'' 2 = Inr (Some ''Green'')
   \<and> ENUMS (empty_unit\<lparr>arrays := [''trafficLightColors_str'' \<mapsto> MY_COLORS]\<rparr>)
        ''trafficLightColors'' 3 = Inl Undefined
   \<and> ENUMS_in_memory (place ''trafficLightColors_str'' 16 MY_COLORS empty_image)
        ''trafficLightColors'' 3
      = Inr (cell (place ''trafficLightColors_str'' 16 MY_COLORS empty_image) 19)
   \<and> ENUMS_in_memory (place ''trafficLightColors_str'' 16 MY_COLORS empty_image)
        ''trafficLightColors'' (- 1)
      = Inr (cell (place ''trafficLightColors_str'' 16 MY_COLORS empty_image) 15)"
proof -
  let ?u = "empty_unit\<lparr>arrays := [''trafficLightColors_str'' \<mapsto> MY_COLORS]\<rparr>"
  let ?im = "place ''trafficLightColors_str'' 16 MY_COLORS empty_image"
  have h1: "arrays ?u (paste_str ''trafficLightColors'') = Some MY_COLORS"
    by (simp add: paste_str_def)
  have h2: "base_of ?im (paste_str ''trafficLightColors'') = Some 16"
    by (simp add: paste_str_def place_def)
  have h3: "stored_at (cell ?im) 16 MY_COLORS"
    by (simp add: place_def MY_COLORS_def empty_image_def)
  note t = ENUMS_in_memory_unchecked [OF h1 h2 h3]
  from t [THEN conjunct1, rule_format, of 2]
  have a: "ENUMS_in_memory ?im ''trafficLightColors'' 2 = Inr (Some ''Green'')"
    by (simp add: MY_COLORS_def)
  from t [THEN conjunct2, rule_format, of 3]
  have b: "ENUMS ?u ''trafficLightColors'' 3 = Inl Undefined"
    "ENUMS_in_memory ?im ''trafficLightColors'' 3 = Inr (cell ?im 19)"
    by (simp_all add: MY_COLORS_def)
  from t [THEN conjunct2, rule_format, of "- 1"]
  have c: "ENUMS_in_memory ?im ''trafficLightColors'' (- 1) = Inr (cell ?im 15)"
    by simp
  from h1 h2 h3 a b c show ?thesis by blast
qed

text \<open>
  The claim as it was stated fails. Two enumerations (of two classes) are generated, the
  traffic-light colours and the paint colours \<^verbatim>\<open>Blue, Red\<close>, and the table of the second
  is placed right after the table of the first, at the address 3. The lookup in the
  table of the traffic-light colours at the index 4, outside \<open>[0, 2]\<close>, then returns
  \<^verbatim>\<open>"Red"\<close>, the string of the valid enumerator \<open>Red = 0\<close> of that table.
\<close>

theorem ENUMS_outside_counterexample:
  "declare_all
     (ENUMSTR ''trafficLightColors'' MY_COLORS @ STRINGIFY ''trafficLightColors'' MY_COLORS
        @ ENUMSTR ''paintColors'' [''Blue'', ''Red'']
        @ STRINGIFY ''paintColors'' [''Blue'', ''Red''])
     empty_unit
   = Inr \<lparr>enums = [''trafficLightColors'' \<mapsto> [(''Red'', 0), (''Amber'', 1), (''Green'', 2)],
                    ''paintColors'' \<mapsto> [(''Blue'', 0), (''Red'', 1)]],
          arrays = [''trafficLightColors_str'' \<mapsto> [''Red'', ''Amber'', ''Green''],
                    ''paintColors_str'' \<mapsto> [''Blue'', ''Red'']]\<rparr>
   \<and> \<not> (0 \<le> (4::int) \<and> (4::int) < int (length [''Red'', ''Amber'', ''Green'']))
   \<and> (0::nat) < length [''Red'', ''Amber'', ''Green'']
   \<and> ENUMS_in_memory
        (load [(''trafficLightColors_str'', 0), (''paintColors_str'', 3)]
           \<lparr>enums = [''trafficLightColors'' \<mapsto> [(''Red'', 0), (''Amber'', 1), (''Green'', 2)],
                      ''paintColors'' \<mapsto> [(''Blue'', 0), (''Red'', 1)]],
            arrays = [''trafficLightColors_str'' \<mapsto> [''Red'', ''Amber'', ''Green''],
                      ''paintColors_str'' \<mapsto> [''Blue'', ''Red'']]\<rparr>
           empty_image)
        ''trafficLightColors'' 4
      = Inr (Some ([''Red'', ''Amber'', ''Green''] ! 0))"
  by (simp add: ENUMSTR_def STRINGIFY_def MACRO_TO_ARGS_def COMMA_SEPARATED_def
      STR_COMMA_SEPARATED_def MY_COLORS_def empty_unit_def paste_str_def
      ENUMS_in_memory_def place_def empty_image_def numeral_2_eq_2)

section \<open>Properties of the exception class\<close>

lemma sint_of_nat_small:
  assumes "r < 2 ^ 31"
  shows "sint (of_nat r :: 32 word) = int r"
proof -
  have "int r < int (2 ^ 31)" using assms by (simp only: of_nat_less_iff)
  then have "int r < 2 ^ 31" by simp
  then have "signed_take_bit (31::nat) (int r) = int r"
    by (simp add: signed_take_bit_int_eq_self_iff)
  then show ?thesis by (simp add: signed_of_nat)
qed

lemma update_all_members:
  "e\<lparr>ec_' := r, msg_' := m, func_' := f\<rparr> = \<lparr>msg_' = m, func_' = f, ec_' = r\<rparr>"
  by (cases e) simp

lemma EXCEPTIONS_valid:
  assumes "enums u T = Some es" and "arrays u (paste_str T) = Some tbl" and "r < length tbl"
  shows "EXCEPTIONS T u r w s =
           Inr (Expeption, s(Expeption := \<lparr>msg_' = Some (tbl ! r), func_' = w, ec_' = of_nat r\<rparr>))"
  using assms by (simp add: EXCEPTIONS_def subscript_def operator_call_def update_all_members)

subsection \<open>A fresh object\<close>

text \<open>
  Claim C6. An object of the class that has just been constructed, before any call of
  the update operation, reports the code \<open>-1\<close> (as a word, and read as a signed
  integer), and its message accessor \<^verbatim>\<open>what()\<close> returns the null pointer.
\<close>

theorem fresh_code_and_message:
  "code stdException_init = - 1
   \<and> sint (code stdException_init) = - 1
   \<and> what stdException_init = None"
  by (simp add: stdException_init_def code_def what_def)

text \<open>
  Claim C10. For such a fresh object the origin accessor \<^verbatim>\<open>where()\<close> returns the null
  pointer as well.
\<close>

theorem fresh_origin:
  "where' stdException_init = None"
  by (simp add: stdException_init_def where'_def)

subsection \<open>The update operation\<close>

text \<open>
  Claim C4. For every \<^verbatim>\<open>int\<close> \<open>r\<close> and all pointers \<open>msg\<close> and \<open>fnc\<close>, after one call of
  the update operation with \<open>(r, msg, fnc)\<close> on any object, in any store, the three
  accessors return exactly \<open>r\<close>, \<open>msg\<close> and \<open>fnc\<close>, read through the reference that the
  call returned and through the object itself.
\<close>

theorem operator_call_readback:
  "(case operator_call this r msg fnc s of
      (ref, s') \<Rightarrow>
        code (s' ref) = r \<and> what (s' ref) = msg \<and> where' (s' ref) = fnc
        \<and> code (s' this) = r \<and> what (s' this) = msg \<and> where' (s' this) = fnc)"
  by (simp add: operator_call_def code_def what_def where'_def)

text \<open>
  Claim C9. A copy of an exception value shows the same three members as the value it
  was copied from: \<^verbatim>\<open>code()\<close>, \<^verbatim>\<open>what()\<close> and \<^verbatim>\<open>where()\<close> agree on both.
\<close>

theorem copy_same_fields:
  "what (copy e) = what e \<and> where' (copy e) = where' e \<and> code (copy e) = code e"
  by (simp add: copy_def what_def where'_def code_def)

subsection \<open>The staging object\<close>

text \<open>
  Claim C5. A call of the update operation changes the object it is called on and no
  other, and returns a reference to that same object; after a second call on the
  returned reference the object holds exactly the members of the second call. The helper
  \<^verbatim>\<open>__exp__\<close> that \<^verbatim>\<open>EXCEPTIONS\<close> generates always calls it on the one object
  \<^verbatim>\<open>__Expeption__\<close>: for valid reasons, two raises in a row both return the reference to
  \<^verbatim>\<open>__Expeption__\<close>, after the first it holds the members of the first raise, after the
  second exactly those of the second, and every other object is as it was.
\<close>

theorem staging_instance_overwritten:
  "(\<forall>this r1 m1 f1 r2 m2 f2 s.
      case operator_call this r1 m1 f1 s of
        (ref1, s1) \<Rightarrow>
          ref1 = this
          \<and> s1 this = \<lparr>msg_' = m1, func_' = f1, ec_' = r1\<rparr>
          \<and> (\<forall>obj. obj \<noteq> this \<longrightarrow> s1 obj = s obj)
          \<and> (case operator_call ref1 r2 m2 f2 s1 of
                (ref2, s2) \<Rightarrow>
                  ref2 = this
                  \<and> s2 this = \<lparr>msg_' = m2, func_' = f2, ec_' = r2\<rparr>
                  \<and> (\<forall>obj. obj \<noteq> this \<longrightarrow> s2 obj = s obj)))
   \<and> (\<forall>THROW_ENUM u es tbl reason1 where1 reason2 where2 s.
        enums u THROW_ENUM = Some es \<and> arrays u (paste_str THROW_ENUM) = Some tbl
        \<and> reason1 < length tbl \<and> reason2 < length tbl
        \<longrightarrow> (\<exists>s1 s2.
               EXCEPTIONS THROW_ENUM u reason1 where1 s = Inr (Expeption, s1)
               \<and> s1 Expeption
                   = \<lparr>msg_' = Some (tbl ! reason1), func_' = where1, ec_' = of_nat reason1\<rparr>
               \<and> EXCEPTIONS THROW_ENUM u reason2 where2 s1 = Inr (Expeption, s2)
               \<and> s2 Expeption
                   = \<lparr>msg_' = Some (tbl ! reason2), func_' = where2, ec_' = of_nat reason2\<rparr>
               \<and> (\<forall>obj. obj \<noteq> Expeption \<longrightarrow> s1 obj = s obj \<and> s2 obj = s obj)))"
proof (rule conjI)
  show "\<forall>this r1 m1 f1 r2 m2 f2 s.
      case operator_call this r1 m1 f1 s of
        (ref1, s1) \<Rightarrow>
          ref1 = this
          \<and> s1 this = \<lparr>msg_' = m1, func_' = f1, ec_' = r1\<rparr>
          \<and> (\<forall>obj. obj \<noteq> this \<longrightarrow> s1 obj = s obj)
          \<and> (case operator_call ref1 r2 m2 f2 s1 of
                (ref2, s2) \<Rightarrow>
                  ref2 = this
                  \<and> s2 this = \<lparr>msg_' = m2, func_' = f2, ec_' = r2\<rparr>
                  \<and> (\<forall>obj. obj \<noteq> this \<longrightarrow> s2 obj = s obj))"
    by (simp add: operator_call_def update_all_members)
next
  show "\<forall>THROW_ENUM u es tbl reason1 where1 reason2 where2 s.
        enums u THROW_ENUM = Some es \<and> arrays u (paste_str THROW_ENUM) = Some tbl
        \<and> reason1 < length tbl \<and> reason2 < length tbl
        \<longrightarrow> (\<exists>s1 s2.
               EXCEPTIONS THROW_ENUM u reason1 where1 s = Inr (Expeption, s1)
               \<and> s1 Expeption
                   = \<lparr>msg_' = Some (tbl ! reason1), func_' = where1, ec_' = of_nat reason1\<rparr>
               \<and> EXCEPTIONS THROW_ENUM u reason2 where2 s1 = Inr (Expeption, s2)
               \<and> s2 Expeption
                   = \<lparr>msg_' = Some (tbl ! reason2), func_' = where2, ec_' = of_nat reason2\<rparr>
               \<and> (\<forall>obj. obj \<noteq> Expeption \<longrightarrow> s1 obj = s obj \<and> s2 obj = s obj))"
    by (simp add: EXCEPTIONS_valid)
qed

theorem staging_instance_overwritten_witness:
  "enums (empty_unit\<lparr>enums := [''ThrowReason'' \<mapsto> number_from 0 THROWREASON],
                      arrays := [''ThrowReason_str'' \<mapsto> THROWREASON]\<rparr>) ''ThrowReason''
     = Some (number_from 0 THROWREASON)
   \<and> arrays (empty_unit\<lparr>enums := [''ThrowReason'' \<mapsto> number_from 0 THROWREASON],
                        arrays := [''ThrowReason_str'' \<mapsto> THROWREASON]\<rparr>)
       (paste_str ''ThrowReason'') = Some THROWREASON
   \<and> (0::nat) < length THROWREASON \<and> (2::nat) < length THROWREASON
   \<and> (\<exists>s1 s2.
        EXCEPTIONS ''ThrowReason''
          (empty_unit\<lparr>enums := [''ThrowReason'' \<mapsto> number_from 0 THROWREASON],
                       arrays := [''ThrowReason_str'' \<mapsto> THROWREASON]\<rparr>)
          0 (Some ''open'') initial_store = Inr (Expeption, s1)
        \<and> EXCEPTIONS ''ThrowReason''
          (empty_unit\<lparr>enums := [''ThrowReason'' \<mapsto> number_from 0 THROWREASON],
                       arrays := [''ThrowReason_str'' \<mapsto> THROWREASON]\<rparr>)
          2 (Some ''parse'') s1 = Inr (Expeption, s2)
        \<and> code (s1 Expeption) = 0
        \<and> what (s1 Expeption) = Some ''InvalidInput''
        \<and> where' (s1 Expeption) = Some ''open''
        \<and> code (s2 Expeption) = 2
        \<and> what (s2 Expeption) = Some ''WrongType''
        \<and> where' (s2 Expeption) = Some ''parse''
        \<and> s2 (Other 0) = stdException_init)"
proof -
  let ?u = "empty_unit\<lparr>enums := [''ThrowReason'' \<mapsto> number_from 0 THROWREASON],
                       arrays := [''ThrowReason_str'' \<mapsto> THROWREASON]\<rparr>"
  have h: "enums ?u ''ThrowReason'' = Some (number_from 0 THROWREASON)
           \<and> arrays ?u (paste_str ''ThrowReason'') = Some THROWREASON
           \<and> (0::nat) < length THROWREASON \<and> (2::nat) < length THROWREASON"
    by (simp add: paste_str_def THROWREASON_def)
  from staging_instance_overwritten
    [THEN conjunct2, rule_format, OF h, of "Some ''open''" initial_store "Some ''parse''"]
  obtain s1 s2 where
    "EXCEPTIONS ''ThrowReason'' ?u 0 (Some ''open'') initial_store = Inr (Expeption, s1)"
    "s1 Expeption
       = \<lparr>msg_' = Some (THROWREASON ! 0), func_' = Some ''open'', ec_' = of_nat 0\<rparr>"
    "EXCEPTIONS ''ThrowReason'' ?u 2 (Some ''parse'') s1 = Inr (Expeption, s2)"
    "s2 Expeption
       = \<lparr>msg_' = Some (THROWREASON ! 2), func_' = Some ''parse'', ec_' = of_nat 2\<rparr>"
    "\<forall>obj. obj \<noteq> Expeption \<longrightarrow> s1 obj = initial_store obj \<and> s2 obj = initial_store obj"
    by blast
  then show ?thesis using h
    by (auto simp: code_def what_def where'_def initial_store_def THROWREASON_def)
qed

subsection \<open>Raising a reason\<close>

text \<open>
  Claim C3. Let an enumeration of reasons be declared and its string table be defined,
  and let \<open>TROW_REASON\<close> name an enumerator whose value \<open>r\<close> is an index of the table.
  Raising it in a function with the label \<open>f\<close>, by \<^verbatim>\<open>__exp__\<close> directly or by \<^verbatim>\<open>EXP\<close>,
  gives a reference to an exception value whose code is \<open>r\<close> converted to \<^verbatim>\<open>int\<close> (which
  reads as \<open>r\<close> whenever \<open>r\<close> fits an \<^verbatim>\<open>int\<close>), whose message is element \<open>r\<close> of the table
  and whose origin is \<open>f\<close>. In the example of the header, with the reasons
  \<^verbatim>\<open>InvalidInput = 0\<close>, \<^verbatim>\<open>IncorrectUsage = 1\<close>, \<^verbatim>\<open>WrongType = 2\<close>, raising \<^verbatim>\<open>WrongType\<close> in the
  function labelled \<^verbatim>\<open>parse\<close> gives the code 2, the message \<^verbatim>\<open>"WrongType"\<close> and the origin
  \<^verbatim>\<open>"parse"\<close>.
\<close>

theorem raise_reason_fields:
  "(\<forall>THROW_ENUM u es tbl TROW_REASON r f s.
      enums u THROW_ENUM = Some es \<and> arrays u (paste_str THROW_ENUM) = Some tbl
      \<and> map_of es TROW_REASON = Some r \<and> r < length tbl
      \<longrightarrow> (\<exists>ref s'.
             EXCEPTIONS THROW_ENUM u r (Some f) s = Inr (ref, s')
             \<and> EXP THROW_ENUM u f TROW_REASON s = Inr (ref, s')
             \<and> code (s' ref) = of_nat r
             \<and> (r < 2 ^ 31 \<longrightarrow> sint (code (s' ref)) = int r)
             \<and> what (s' ref) = Some (tbl ! r)
             \<and> where' (s' ref) = Some f))
   \<and> (case declare_all
             (ENUMSTR ''ThrowReason'' THROWREASON @ STRINGIFY ''ThrowReason'' THROWREASON)
             empty_unit of
         Inl f \<Rightarrow> False
       | Inr u \<Rightarrow>
           enums u ''ThrowReason''
             = Some [(''InvalidInput'', 0), (''IncorrectUsage'', 1), (''WrongType'', 2)]
           \<and> (case EXP ''ThrowReason'' u ''parse'' ''WrongType'' initial_store of
                 Inl f \<Rightarrow> False
               | Inr (ref, s') \<Rightarrow>
                   code (s' ref) = 2
                   \<and> sint (code (s' ref)) = 2
                   \<and> what (s' ref) = Some ''WrongType''
                   \<and> where' (s' ref) = Some ''parse''))"
proof (rule conjI)
  show "\<forall>THROW_ENUM u es tbl TROW_REASON r f s.
      enums u THROW_ENUM = Some es \<and> arrays u (paste_str THROW_ENUM) = Some tbl
      \<and> map_of es TROW_REASON = Some r \<and> r < length tbl
      \<longrightarrow> (\<exists>ref s'.
             EXCEPTIONS THROW_ENUM u r (Some f) s = Inr (ref, s')
             \<and> EXP THROW_ENUM u f TROW_REASON s = Inr (ref, s')
             \<and> code (s' ref) = of_nat r
             \<and> (r < 2 ^ 31 \<longrightarrow> sint (code (s' ref)) = int r)
             \<and> what (s' ref) = Some (tbl ! r)
             \<and> where' (s' ref) = Some f)"
  proof (intro allI impI)
    fix THROW_ENUM and u :: translation_unit and es tbl TROW_REASON r f and s :: store
    assume h: "enums u THROW_ENUM = Some es \<and> arrays u (paste_str THROW_ENUM) = Some tbl
      \<and> map_of es TROW_REASON = Some r \<and> r < length tbl"
    let ?s' = "s(Expeption := \<lparr>msg_' = Some (tbl ! r), func_' = Some f, ec_' = of_nat r\<rparr>)"
    from h have e: "EXCEPTIONS THROW_ENUM u r (Some f) s = Inr (Expeption, ?s')"
      by (simp add: EXCEPTIONS_valid)
    from h e have p: "EXP THROW_ENUM u f TROW_REASON s = Inr (Expeption, ?s')"
      by (simp add: EXP_def)
    show "\<exists>ref s'.
             EXCEPTIONS THROW_ENUM u r (Some f) s = Inr (ref, s')
             \<and> EXP THROW_ENUM u f TROW_REASON s = Inr (ref, s')
             \<and> code (s' ref) = of_nat r
             \<and> (r < 2 ^ 31 \<longrightarrow> sint (code (s' ref)) = int r)
             \<and> what (s' ref) = Some (tbl ! r)
             \<and> where' (s' ref) = Some f"
    proof (intro exI conjI)
      show "EXCEPTIONS THROW_ENUM u r (Some f) s = Inr (Expeption, ?s')" by (rule e)
      show "EXP THROW_ENUM u f TROW_REASON s = Inr (Expeption, ?s')" by (rule p)
      show "code (?s' Expeption) = of_nat r" by (simp add: code_def)
      show "r < 2 ^ 31 \<longrightarrow> sint (code (?s' Expeption)) = int r"
        by (simp add: code_def sint_of_nat_small)
      show "what (?s' Expeption) = Some (tbl ! r)" by (simp add: what_def)
      show "where' (?s' Expeption) = Some f" by (simp add: where'_def)
    qed
  qed
next
  have "declare_all
          (ENUMSTR ''ThrowReason'' THROWREASON @ STRINGIFY ''ThrowReason'' THROWREASON)
          empty_unit
        = Inr (empty_unit
                 \<lparr>enums := (enums empty_unit)(''ThrowReason'' \<mapsto> number_from 0 THROWREASON),
                  arrays := (arrays empty_unit)(paste_str ''ThrowReason'' \<mapsto> THROWREASON)\<rparr>)"
    by (rule declare_ENUMSTR_STRINGIFY) (simp_all add: empty_unit_def THROWREASON_def)
  then show "case declare_all
             (ENUMSTR ''ThrowReason'' THROWREASON @ STRINGIFY ''ThrowReason'' THROWREASON)
             empty_unit of
         Inl f \<Rightarrow> False
       | Inr u \<Rightarrow>
           enums u ''ThrowReason''
             = Some [(''InvalidInput'', 0), (''IncorrectUsage'', 1), (''WrongType'', 2)]
           \<and> (case EXP ''ThrowReason'' u ''parse'' ''WrongType'' initial_store of
                 Inl f \<Rightarrow> False
               | Inr (ref, s') \<Rightarrow>
                   code (s' ref) = 2
                   \<and> sint (code (s' ref)) = 2
                   \<and> what (s' ref) = Some ''WrongType''
                   \<and> where' (s' ref) = Some ''parse'')"
    by (simp add: EXP_def EXCEPTIONS_def subscript_def operator_call_def paste_str_def
        THROWREASON_def code_def what_def where'_def)
qed

theorem raise_reason_fields_witness:
  "enums (empty_unit\<lparr>enums := [''ThrowReason'' \<mapsto> number_from 0 THROWREASON],
                      arrays := [''ThrowReason_str'' \<mapsto> THROWREASON]\<rparr>) ''ThrowReason''
     = Some (number_from 0 THROWREASON)
   \<and> arrays (empty_unit\<lparr>enums := [''ThrowReason'' \<mapsto> number_from 0 THROWREASON],
                        arrays := [''ThrowReason_str'' \<mapsto> THROWREASON]\<rparr>)
       (paste_str ''ThrowReason'') = Some THROWREASON
   \<and> map_of (number_from 0 THROWREASON) ''IncorrectUsage'' = Some 1
   \<and> (1::nat) < length THROWREASON
   \<and> (\<exists>ref s'.
        EXP ''ThrowReason''
          (empty_unit\<lparr>enums := [''ThrowReason'' \<mapsto> number_from 0 THROWREASON],
                       arrays := [''ThrowReason_str'' \<mapsto> THROWREASON]\<rparr>)
          ''lookup'' ''IncorrectUsage'' initial_store = Inr (ref, s')
        \<and> sint (code (s' ref)) = 1
        \<and> what (s' ref) = Some ''IncorrectUsage''
        \<and> where' (s' ref) = Some ''lookup'')"
proof -
  let ?u = "empty_unit\<lparr>enums := [''ThrowReason'' \<mapsto> number_from 0 THROWREASON],
                       arrays := [''ThrowReason_str'' \<mapsto> THROWREASON]\<rparr>"
  have h: "enums ?u ''ThrowReason'' = Some (number_from 0 THROWREASON)
           \<and> arrays ?u (paste_str ''ThrowReason'') = Some THROWREASON
           \<and> map_of (number_from 0 THROWREASON) ''IncorrectUsage'' = Some 1
           \<and> (1::nat) < length THROWREASON"
    by (simp add: paste_str_def THROWREASON_def)
  from raise_reason_fields [THEN conjunct1, rule_format, OF h, of "''lookup''" initial_store]
  obtain ref s' where
    "EXP ''ThrowReason'' ?u ''lookup'' ''IncorrectUsage'' initial_store = Inr (ref, s')"
    "(1::nat) < 2 ^ 31 \<longrightarrow> sint (code (s' ref)) = int 1"
    "what (s' ref) = Some (THROWREASON ! 1)"
    "where' (s' ref) = Some ''lookup''"
    by blast
  then show ?thesis using h by (auto simp: THROWREASON_def)
qed

end
